theory Spec2Isabelle
  imports Complex_Main "HOL-Library.AList"
begin

section \<open>Python values\<close>

text \<open>
  The bot is one Python module, \<^verbatim>\<open>bot.py\<close>. Its state lives in the cog
  \<^verbatim>\<open>VcNotifier\<close> and in two JSON files; everything it does to Discord goes
  through \<^verbatim>\<open>send_to_channel\<close>. The model passes the cog and the disk explicitly,
  returns every raised exception as a value, and returns the log lines and the messages
  sent as a list of effects.

  Durations and clock readings are Python floats. They are modelled as \<open>real\<close>: the
  rounding of float subtraction and addition, infinities and NaN are outside the model.
  Strings are the UTF-8 bytes of the Python strings.
\<close>

datatype exn =
  TypeError | ValueError | AttributeError | OSError | JSONDecodeError
  | KeyError | Forbidden | NotFound | HTTPException

type_synonym ('k, 'v) dict = "('k \<times> 'v) list"

text \<open>
  A dict is an association list with distinct keys, in insertion order.
  \<^verbatim>\<open>d.get(k, default)\<close> and \<^verbatim>\<open>d[k] = v\<close> (an existing key keeps its place).
\<close>

definition dict_get :: "('k, 'v) dict \<Rightarrow> 'k \<Rightarrow> 'v \<Rightarrow> 'v" where
  "dict_get d k dflt = (case map_of d k of None \<Rightarrow> dflt | Some v \<Rightarrow> v)"

definition dict_set :: "('k, 'v) dict \<Rightarrow> 'k \<Rightarrow> 'v \<Rightarrow> ('k, 'v) dict" where
  "dict_set d k v = AList.update k v d"

text \<open>A Python set of member ids: a list without duplicates; \<^verbatim>\<open>s.add(x)\<close>.\<close>

definition set_add :: "'a \<Rightarrow> 'a list \<Rightarrow> 'a list" where
  "set_add x xs = (if x \<in> set xs then xs else xs @ [x])"

subsection \<open>Integers as decimal text\<close>

text \<open>The decimal digits; \<open>digit_char\<close> is only ever applied to a number below ten.\<close>

definition decimal_digits :: string where
  "decimal_digits = ''0123456789''"

definition digit_char :: "nat \<Rightarrow> char" where
  "digit_char d = decimal_digits ! (d mod 10)"

fun str_nat :: "nat \<Rightarrow> string" where
  "str_nat n = (if n < 10 then [digit_char n] else str_nat (n div 10) @ [digit_char (n mod 10)])"

text \<open>\<^verbatim>\<open>str(i)\<close> of a Python int, as an f-string renders it.\<close>

definition str_int :: "int \<Rightarrow> string" where
  "str_int i = (if i < 0 then CHR ''-'' # str_nat (nat (- i)) else str_nat (nat i))"

definition digit_val :: "char \<Rightarrow> nat option" where
  "digit_val c = map_of (zip decimal_digits [0, 1, 2, 3, 4, 5, 6, 7, 8, 9]) c"

fun nat_of_digits :: "nat \<Rightarrow> string \<Rightarrow> nat option" where
  "nat_of_digits acc [] = Some acc"
| "nat_of_digits acc (c # cs) =
     (case digit_val c of None \<Rightarrow> None | Some d \<Rightarrow> nat_of_digits (10 * acc + d) cs)"

text \<open>
  \<^verbatim>\<open>int(s)\<close> of a string: an optional sign and at least one ASCII digit; anything
  else is \<^verbatim>\<open>ValueError\<close> (\<open>None\<close>). Python also accepts surrounding white space,
  underscores between digits and non-ASCII digits; \<^verbatim>\<open>str\<close> never produces them and
  the model rejects them.
\<close>

definition int_of_str :: "string \<Rightarrow> int option" where
  "int_of_str s =
     (case s of
        [] \<Rightarrow> None
      | c # cs \<Rightarrow>
          if c = CHR ''-'' then
            (if cs = [] then None else map_option (\<lambda>n. - int n) (nat_of_digits 0 cs))
          else if c = CHR ''+'' then
            (if cs = [] then None else map_option int (nat_of_digits 0 cs))
          else map_option int (nat_of_digits 0 s))"

text \<open>\<^verbatim>\<open>int(x)\<close> of a float truncates towards zero.\<close>

definition py_int :: "real \<Rightarrow> int" where
  "py_int x = (if 0 \<le> x then \<lfloor>x\<rfloor> else \<lceil>x\<rceil>)"

text \<open>\<^verbatim>\<open>"\n".join(lines)\<close>\<close>

fun join_lines :: "string list \<Rightarrow> string" where
  "join_lines [] = []"
| "join_lines [l] = l"
| "join_lines (l # l' # ls) = l @ [CHR 0x0A] @ join_lines (l' # ls)"

section \<open>Message text\<close>

definition unit_sec :: string where
  \<comment> \<open>the suffix for seconds\<close>
  "unit_sec =
    [CHR 0xE7, CHR 0xA7, CHR 0x92]"

definition unit_min :: string where
  \<comment> \<open>the suffix for minutes\<close>
  "unit_min =
    [CHR 0xE5, CHR 0x88, CHR 0x86]"

definition unit_hour :: string where
  \<comment> \<open>the suffix for hours\<close>
  "unit_hour =
    [CHR 0xE6, CHR 0x99, CHR 0x82, CHR 0xE9, CHR 0x96, CHR 0x93]"

definition txt_ga :: string where
  \<comment> \<open>between the member name and the channel name\<close>
  "txt_ga =
    [CHR 0x20, CHR 0xE3, CHR 0x81, CHR 0x8C, CHR 0x20]"

definition txt_joined :: string where
  \<comment> \<open>end of the join message\<close>
  "txt_joined =
    [CHR 0x20, CHR 0xE3, CHR 0x81, CHR 0xAB, CHR 0xE5, CHR 0x8F, CHR 0x82, CHR 0xE5,
     CHR 0x8A, CHR 0xA0, CHR 0xE3, CHR 0x81, CHR 0x97, CHR 0xE3, CHR 0x81, CHR 0xBE,
     CHR 0xE3, CHR 0x81, CHR 0x97, CHR 0xE3, CHR 0x81, CHR 0x9F]"

definition txt_left_stay :: string where
  \<comment> \<open>middle of the leave message, up to the stay\<close>
  "txt_left_stay =
    [CHR 0x20, CHR 0xE3, CHR 0x81, CHR 0x8B, CHR 0xE3, CHR 0x82, CHR 0x89, CHR 0xE9,
     CHR 0x80, CHR 0x80, CHR 0xE5, CHR 0x87, CHR 0xBA, CHR 0xE3, CHR 0x81, CHR 0x97,
     CHR 0xE3, CHR 0x81, CHR 0xBE, CHR 0xE3, CHR 0x81, CHR 0x97, CHR 0xE3, CHR 0x81,
     CHR 0x9F, CHR 0xEF, CHR 0xBC, CHR 0x88, CHR 0xE6, CHR 0xBB, CHR 0x9E, CHR 0xE5,
     CHR 0x9C, CHR 0xA8, CHR 0x20]"

definition txt_total :: string where
  \<comment> \<open>between the stay and the running total\<close>
  "txt_total =
    [CHR 0xEF, CHR 0xBC, CHR 0x8F, CHR 0xE7, CHR 0xB4, CHR 0xAF, CHR 0xE8, CHR 0xA8,
     CHR 0x88, CHR 0x20]"

definition txt_close :: string where
  \<comment> \<open>end of the leave message\<close>
  "txt_close =
    [CHR 0xEF, CHR 0xBC, CHR 0x89]"

definition txt_header :: string where
  \<comment> \<open>first line of the daily summary\<close>
  "txt_header =
    [CHR 0xF0, CHR 0x9F, CHR 0x93, CHR 0x8A, CHR 0x20, CHR 0x2A, CHR 0x2A, CHR 0xE6,
     CHR 0x9C, CHR 0xAC, CHR 0xE6, CHR 0x97, CHR 0xA5, CHR 0xE3, CHR 0x81, CHR 0xAE,
     CHR 0xE5, CHR 0x8B, CHR 0x89, CHR 0xE5, CHR 0xBC, CHR 0xB7, CHR 0xE6, CHR 0x99,
     CHR 0x82, CHR 0xE9, CHR 0x96, CHR 0x93, CHR 0xE3, CHR 0x81, CHR 0xBE, CHR 0xE3,
     CHR 0x81, CHR 0xA8, CHR 0xE3, CHR 0x82, CHR 0x81, CHR 0x2A, CHR 0x2A]"

definition txt_bullet :: string where
  \<comment> \<open>start of a summary line\<close>
  "txt_bullet =
    [CHR 0xE3, CHR 0x83, CHR 0xBB, CHR 0x2A, CHR 0x2A]"

definition txt_colon :: string where
  \<comment> \<open>between name and total in a summary line\<close>
  "txt_colon =
    [CHR 0x2A, CHR 0x2A, CHR 0xEF, CHR 0xBC, CHR 0x9A]"

definition txt_footer :: string where
  \<comment> \<open>last line of the daily summary\<close>
  "txt_footer =
    [CHR 0xF0, CHR 0x9F, CHR 0x8C, CHR 0x99, CHR 0xE4, CHR 0xBB, CHR 0x8A, CHR 0xE6,
     CHR 0x97, CHR 0xA5, CHR 0xE3, CHR 0x82, CHR 0x82, CHR 0xE3, CHR 0x81, CHR 0x8A,
     CHR 0xE7, CHR 0x96, CHR 0xB2, CHR 0xE3, CHR 0x82, CHR 0x8C, CHR 0xE3, CHR 0x81,
     CHR 0x95, CHR 0xE3, CHR 0x81, CHR 0xBE, CHR 0xE3, CHR 0x81, CHR 0xA7, CHR 0xE3,
     CHR 0x81, CHR 0x97, CHR 0xE3, CHR 0x81, CHR 0x9F, CHR 0xEF, CHR 0xBC, CHR 0x81]"

text \<open>The nested function \<^verbatim>\<open>fmt\<close> of the leave branch (lines 193--202).\<close>

definition fmt :: "real \<Rightarrow> string" where
  "fmt sec =
     (if sec < 60 then str_int (py_int sec) @ unit_sec
      else if sec < 3600 then
        (let m = py_int sec div 60; s = py_int sec mod 60
         in str_int m @ unit_min @ str_int s @ unit_sec)
      else
        (let h = py_int sec div 3600; rem = py_int sec mod 3600;
             m = rem div 60; s = rem mod 60
         in str_int h @ unit_hour @ str_int m @ unit_min @ str_int s @ unit_sec))"

text \<open>
  The formatting written out again inside \<^verbatim>\<open>daily_summary\<close> (lines 221--229), on
  the total already truncated to an int.
\<close>

definition summary_t_str :: "int \<Rightarrow> string" where
  "summary_t_str total' =
     (if total' < 60 then str_int total' @ unit_sec
      else if total' < 3600 then
        (let m = total' div 60; s = total' mod 60
         in str_int m @ unit_min @ str_int s @ unit_sec)
      else
        (let h = total' div 3600; rem = total' mod 3600;
             m = rem div 60; s = rem mod 60
         in str_int h @ unit_hour @ str_int m @ unit_min @ str_int s @ unit_sec))"

definition join_message :: "string \<Rightarrow> string \<Rightarrow> string" where
  "join_message name channel =
     ''**'' @ name @ ''**'' @ txt_ga @ ''**'' @ channel @ ''**'' @ txt_joined"

definition leave_message :: "string \<Rightarrow> string \<Rightarrow> string \<Rightarrow> string \<Rightarrow> string" where
  "leave_message name channel stay_str total_str =
     ''**'' @ name @ ''**'' @ txt_ga @ ''**'' @ channel @ ''**'' @ txt_left_stay
       @ stay_str @ txt_total @ total_str @ txt_close"

section \<open>The two JSON files\<close>

text \<open>
  The JSON values the bot writes: \<^verbatim>\<open>null\<close>, integers, floats and objects. A file
  is either empty (what \<^verbatim>\<open>open(path, "w")\<close> leaves before anything is written, on
  which \<^verbatim>\<open>json.load\<close> raises) or holds one complete document.
  \<^verbatim>\<open>json.dump\<close> followed by \<^verbatim>\<open>json.load\<close> returns the value dumped, a float
  included (its \<^verbatim>\<open>repr\<close> reads back exactly), with every dict key turned into its
  string.
\<close>

datatype json = JNull | JInt int | JFloat real | JObject "(string \<times> json) list"

datatype content = Blank | Doc json

datatype path = CONFIG_PATH | CONFIG_TMP | DAILY_TOTALS_PATH

record disk =
  files :: "path \<Rightarrow> content option"
  data_dir :: bool
  read_only :: bool

text \<open>
  The steps of a save that touch the disk, one at a time, so that the state between two
  steps (what a crash leaves, what a concurrent reader sees) is a state of the model:
  \<^verbatim>\<open>DATA_DIR.mkdir(parents=True, exist_ok=True)\<close>, \<^verbatim>\<open>path.open("w")\<close>, which
  truncates, \<^verbatim>\<open>json.dump\<close> up to the close of the file, and \<^verbatim>\<open>tmp.replace(dst)\<close>.
  A read-only disk refuses them with \<^verbatim>\<open>OSError\<close>.
\<close>

datatype fs_op = Mkdir_data | Open_w path | Json_dump path json | Replace path path

fun fs_step :: "fs_op \<Rightarrow> disk \<Rightarrow> exn + disk" where
  "fs_step Mkdir_data d =
     (if data_dir d then Inr d
      else if read_only d then Inl OSError
      else Inr (d\<lparr>data_dir := True\<rparr>))"
| "fs_step (Open_w p) d =
     (if \<not> data_dir d \<or> read_only d then Inl OSError
      else Inr (d\<lparr>files := (files d)(p \<mapsto> Blank)\<rparr>))"
| "fs_step (Json_dump p j) d = Inr (d\<lparr>files := (files d)(p \<mapsto> Doc j)\<rparr>)"
| "fs_step (Replace src dst) d =
     (case files d src of
        None \<Rightarrow> Inl OSError
      | Some c \<Rightarrow>
          if read_only d then Inl OSError
          else Inr (d\<lparr>files := (files d)(src := None, dst \<mapsto> c)\<rparr>))"

text \<open>Steps run in order; an exception stops them and what was done stays done.\<close>

fun run_ops :: "fs_op list \<Rightarrow> disk \<Rightarrow> disk \<times> exn option" where
  "run_ops [] d = (d, None)"
| "run_ops (x # xs) d =
     (case fs_step x d of Inl e \<Rightarrow> (d, Some e) | Inr d' \<Rightarrow> run_ops xs d')"

datatype log_entry =
  Warn_no_dest | Error_fetch exn | Error_forbidden | Error_send exn
  | Info_totals_saved | Error_totals_save exn | Warn_totals_load exn
  | Info_dest_saved "int option" | Error_dest_save exn

datatype level = INFO | WARNING | ERROR

fun level_of :: "log_entry \<Rightarrow> level" where
  "level_of Warn_no_dest = WARNING"
| "level_of (Error_fetch _) = ERROR"
| "level_of Error_forbidden = ERROR"
| "level_of (Error_send _) = ERROR"
| "level_of Info_totals_saved = INFO"
| "level_of (Error_totals_save _) = ERROR"
| "level_of (Warn_totals_load _) = WARNING"
| "level_of (Info_dest_saved _) = INFO"
| "level_of (Error_dest_save _) = ERROR"

text \<open>What a call does to the outside: a log line, or a message delivered to a channel
  (\<open>True\<close>: with \<^verbatim>\<open>suppress_notifications=True\<close>).\<close>

datatype effect = Log log_entry | Sent int string bool

text \<open>\<^verbatim>\<open>save_persisted_dest_channel_id\<close> (lines 62--72).\<close>

definition save_dest_ops :: "int option \<Rightarrow> fs_op list" where
  "save_dest_ops ch_id =
     [Mkdir_data,
      Open_w CONFIG_TMP,
      Json_dump CONFIG_TMP
        (JObject [(''dest_channel_id'', case ch_id of None \<Rightarrow> JNull | Some i \<Rightarrow> JInt i)]),
      Replace CONFIG_TMP CONFIG_PATH]"

definition save_persisted_dest_channel_id :: "int option \<Rightarrow> disk \<Rightarrow> disk \<times> effect list" where
  "save_persisted_dest_channel_id ch_id d =
     (case run_ops (save_dest_ops ch_id) d of
        (d', None) \<Rightarrow> (d', [Log (Info_dest_saved ch_id)])
      | (d', Some e) \<Rightarrow> (d', [Log (Error_dest_save e)]))"

text \<open>\<^verbatim>\<open>VcNotifier._save_daily_totals\<close> (lines 150--157): \<^verbatim>\<open>json.dump\<close> writes
  an int key as its decimal string.\<close>

definition totals_doc :: "(int, real) dict \<Rightarrow> json" where
  "totals_doc t = JObject (map (\<lambda>(k, v). (str_int k, JFloat v)) t)"

definition save_totals_ops :: "(int, real) dict \<Rightarrow> fs_op list" where
  "save_totals_ops t =
     [Mkdir_data,
      Open_w DAILY_TOTALS_PATH,
      Json_dump DAILY_TOTALS_PATH (totals_doc t)]"

definition save_daily_totals :: "(int, real) dict \<Rightarrow> disk \<Rightarrow> disk \<times> effect list" where
  "save_daily_totals t d =
     (case run_ops (save_totals_ops t) d of
        (d', None) \<Rightarrow> (d', [Log Info_totals_saved])
      | (d', Some e) \<Rightarrow> (d', [Log (Error_totals_save e)]))"

text \<open>
  \<^verbatim>\<open>VcNotifier._load_daily_totals\<close> (lines 141--148). \<^verbatim>\<open>json.load\<close> returns a
  dict (a repeated key keeps its last value); the comprehension
  \<^verbatim>\<open>{int(k): float(v) for k, v in ....items()}\<close> inserts the items in order. Any
  exception gives the empty dict and a warning.
\<close>

definition dict_of_items :: "('k \<times> 'v) list \<Rightarrow> ('k, 'v) dict" where
  "dict_of_items kvs = foldl (\<lambda>acc (k, v). dict_set acc k v) [] kvs"

fun py_float :: "json \<Rightarrow> exn + real" where
  "py_float (JInt n) = Inr (real_of_int n)"
| "py_float (JFloat r) = Inr r"
| "py_float JNull = Inl TypeError"
| "py_float (JObject _) = Inl TypeError"

fun load_items :: "(string \<times> json) list \<Rightarrow> (int, real) dict \<Rightarrow> exn + (int, real) dict" where
  "load_items [] acc = Inr acc"
| "load_items ((k, v) # kvs) acc =
     (case int_of_str k of
        None \<Rightarrow> Inl ValueError
      | Some i \<Rightarrow>
          (case py_float v of
             Inl e \<Rightarrow> Inl e
           | Inr r \<Rightarrow> load_items kvs (dict_set acc i r)))"

definition load_daily_totals :: "disk \<Rightarrow> (int, real) dict \<times> effect list" where
  "load_daily_totals d =
     (case files d DAILY_TOTALS_PATH of
        None \<Rightarrow> ([], [])
      | Some Blank \<Rightarrow> ([], [Log (Warn_totals_load JSONDecodeError)])
      | Some (Doc j) \<Rightarrow>
          (case j of
             JObject kvs \<Rightarrow>
               (case load_items (dict_of_items kvs) [] of
                  Inl e \<Rightarrow> ([], [Log (Warn_totals_load e)])
                | Inr t \<Rightarrow> (t, []))
           | _ \<Rightarrow> ([], [Log (Warn_totals_load AttributeError)])))"

section \<open>Sending\<close>

text \<open>
  What the model needs of \<^verbatim>\<open>VcBot\<close> and of Discord behind it: the configured voice
  channel, whether \<^verbatim>\<open>get_channel\<close> finds a channel in the cache, and for
  \<^verbatim>\<open>fetch_channel\<close>, \<^verbatim>\<open>ch.send(content, suppress_notifications=True)\<close> and
  \<^verbatim>\<open>ch.send(content)\<close> the exception raised, \<open>None\<close> when the call returns;
  \<^verbatim>\<open>get_user\<close> gives the display name of a cached user.
\<close>

record vc_bot =
  target_vc_id :: int
  get_channel :: "int \<Rightarrow> bool"
  fetch_channel :: "int \<Rightarrow> exn option"
  send_suppressed :: "int \<Rightarrow> string \<Rightarrow> exn option"
  send_plain :: "int \<Rightarrow> string \<Rightarrow> exn option"
  get_user :: "int \<Rightarrow> string option"

text \<open>
  \<^verbatim>\<open>send_to_channel\<close> (lines 112--128). The result is the exception that leaves the
  function, if any, and the effects. The plain \<^verbatim>\<open>send\<close> of the \<^verbatim>\<open>except TypeError\<close>
  handler runs inside that handler: the two \<^verbatim>\<open>except\<close> clauses after it belong to
  the same \<^verbatim>\<open>try\<close> and do not guard it.
\<close>

definition send_to_channel :: "vc_bot \<Rightarrow> int \<Rightarrow> string \<Rightarrow> exn option \<times> effect list" where
  "send_to_channel b ch content =
     (case (if get_channel b ch then None else fetch_channel b ch) of
        Some e \<Rightarrow> (None, [Log (Error_fetch e)])
      | None \<Rightarrow>
          (case send_suppressed b ch content of
             None \<Rightarrow> (None, [Sent ch content True])
           | Some e \<Rightarrow>
               if e = TypeError then
                 (case send_plain b ch content of
                    None \<Rightarrow> (None, [Sent ch content False])
                  | Some e' \<Rightarrow> (Some e', []))
               else if e = Forbidden then (None, [Log Error_forbidden])
               else (None, [Log (Error_send e)])))"

section \<open>The cog\<close>

record cog =
  dest_channel_id :: "int option"
  join_times :: "int \<Rightarrow> real option"
  daily_total :: "(int, real) dict"
  active_users :: "int list"

text \<open>\<^verbatim>\<open>VcNotifier.notify\<close> (lines 160--164); \<^verbatim>\<open>not self.dest_channel_id\<close> holds
  for \<^verbatim>\<open>None\<close> and for \<open>0\<close>.\<close>

definition notify :: "vc_bot \<Rightarrow> cog \<Rightarrow> string \<Rightarrow> exn option \<times> effect list" where
  "notify b c message =
     (case dest_channel_id c of
        None \<Rightarrow> (None, [Log Warn_no_dest])
      | Some ch \<Rightarrow>
          if ch = 0 then (None, [Log Warn_no_dest])
          else send_to_channel b ch message)"

record voice_channel =
  channel_id :: int
  channel_name :: string

record member =
  member_id :: int
  member_bot :: bool
  display_name :: string

text \<open>
  \<^verbatim>\<open>VcNotifier.on_voice_state_update\<close> (lines 167--208). \<open>now\<close> is the reading of
  \<^verbatim>\<open>time.time()\<close>; \<open>before\<close> and \<open>after\<close> are \<^verbatim>\<open>before.channel\<close> and
  \<^verbatim>\<open>after.channel\<close>. \<^verbatim>\<open>if join_time:\<close> is false for \<^verbatim>\<open>None\<close> and for
  \<open>0.0\<close>; the \<^verbatim>\<open>pop\<close> before it has removed the entry in both cases.
\<close>

definition on_voice_state_update ::
  "vc_bot \<Rightarrow> real \<Rightarrow> member \<Rightarrow> voice_channel option \<Rightarrow> voice_channel option
     \<Rightarrow> cog \<Rightarrow> disk \<Rightarrow> (cog \<times> disk) \<times> exn option \<times> effect list" where
  "on_voice_state_update b now m before after c d =
     (if member_bot m then ((c, d), None, [])
      else
        let target = target_vc_id b;
            before_id = map_option channel_id before;
            after_id = map_option channel_id after
        in
          if before_id \<noteq> Some target \<and> after_id \<noteq> Some target then ((c, d), None, [])
          else
            (case before of
               None \<Rightarrow>
                 (case after of
                    None \<Rightarrow> ((c, d), None, [])
                  | Some ch \<Rightarrow>
                      let c' = c\<lparr>join_times := (join_times c)(member_id m \<mapsto> now),
                                 active_users := set_add (member_id m) (active_users c)\<rparr>;
                          (raised, effs) =
                            notify b c' (join_message (display_name m) (channel_name ch))
                      in ((c', d), raised, effs))
             | Some ch \<Rightarrow>
                 (case after of
                    Some _ \<Rightarrow> ((c, d), None, [])
                  | None \<Rightarrow>
                      (case join_times c (member_id m) of
                         None \<Rightarrow> ((c, d), None, [])
                       | Some join_time \<Rightarrow>
                           let c1 = c\<lparr>join_times := (join_times c)(member_id m := None)\<rparr>
                           in
                             if join_time = 0 then ((c1, d), None, [])
                             else
                               let stay = now - join_time;
                                   c2 = c1\<lparr>daily_total :=
                                          dict_set (daily_total c1) (member_id m)
                                            (dict_get (daily_total c1) (member_id m) 0 + stay)\<rparr>;
                                   (d', logs) = save_daily_totals (daily_total c2) d;
                                   stay_str = fmt stay
                               in
                                 (case map_of (daily_total c2) (member_id m) of
                                    None \<Rightarrow> ((c2, d'), Some KeyError, logs)
                                  | Some total' \<Rightarrow>
                                      let (raised, effs) =
                                            notify b c2
                                              (leave_message (display_name m) (channel_name ch)
                                                 stay_str (fmt total'))
                                      in ((c2, d'), raised, logs @ effs))))))"

section \<open>The daily summary\<close>

text \<open>
  \<^verbatim>\<open>datetime.now(JST)\<close> with \<^verbatim>\<open>JST = timezone(timedelta(hours=9))\<close>: the hour and
  the minute of the clock, given as whole seconds since the epoch (UTC), nine hours ahead.
\<close>

definition jst_hour :: "int \<Rightarrow> int" where
  "jst_hour utc = ((utc + 9 * 3600) div 3600) mod 24"

definition jst_minute :: "int \<Rightarrow> int" where
  "jst_minute utc = ((utc + 9 * 3600) div 60) mod 60"

text \<open>One line of the summary (lines 217--230).\<close>

definition summary_line :: "vc_bot \<Rightarrow> cog \<Rightarrow> int \<Rightarrow> string" where
  "summary_line b c uid =
     (let total' = py_int (dict_get (daily_total c) uid 0);
          name = (case get_user b uid of
                    Some n \<Rightarrow> n
                  | None \<Rightarrow> ''<@'' @ str_int uid @ ''>'')
      in txt_bullet @ name @ txt_colon @ summary_t_str total')"

definition summary_message :: "vc_bot \<Rightarrow> cog \<Rightarrow> string" where
  "summary_message b c =
     join_lines ([txt_header, []] @ map (summary_line b c) (active_users c) @ [[], txt_footer])"

text \<open>
  One tick of \<^verbatim>\<open>VcNotifier.daily_summary\<close> (lines 211--238). The members are visited
  in the order of the list; Python fixes no order for a set. An exception from
  \<^verbatim>\<open>notify\<close> leaves the function before the two \<^verbatim>\<open>clear()\<close> calls.
\<close>

definition daily_summary ::
  "vc_bot \<Rightarrow> int \<Rightarrow> cog \<Rightarrow> disk \<Rightarrow> (cog \<times> disk) \<times> exn option \<times> effect list" where
  "daily_summary b utc c d =
     (if jst_hour utc = 23 \<and> jst_minute utc = 59 \<and> active_users c \<noteq> [] then
        (case notify b c (summary_message b c) of
           (Some e, effs) \<Rightarrow> ((c, d), Some e, effs)
         | (None, effs) \<Rightarrow>
             let c' = c\<lparr>daily_total := [], active_users := []\<rparr>;
                 (d', logs) = save_daily_totals (daily_total c') d
             in ((c', d'), None, effs @ logs))
      else ((c, d), None, []))"

section \<open>The specification's words\<close>

text \<open>
  From the specification, section 4.1, not from the code: an event is an enter when the
  previous location is not the target channel and the new one is, a leave when the
  previous location is the target channel and the new one is not; the duration of a
  session is the leave time minus the start instant, clamped at zero.
\<close>

definition spec_enter :: "int \<Rightarrow> voice_channel option \<Rightarrow> voice_channel option \<Rightarrow> bool" where
  "spec_enter target before after \<longleftrightarrow>
     map_option channel_id before \<noteq> Some target \<and> map_option channel_id after = Some target"

definition spec_leave :: "int \<Rightarrow> voice_channel option \<Rightarrow> voice_channel option \<Rightarrow> bool" where
  "spec_leave target before after \<longleftrightarrow>
     map_option channel_id before = Some target \<and> map_option channel_id after \<noteq> Some target"

definition spec_duration :: "real \<Rightarrow> real \<Rightarrow> real" where
  "spec_duration leave_time start = max 0 (leave_time - start)"

section \<open>Sample values\<close>

text \<open>
  Values for the worked examples: the voice channel the bot watches and another one, a
  human member, a cog with the destination set and nothing recorded, an empty disk, a
  Discord that delivers every message, and one whose library predates
  \<^verbatim>\<open>suppress_notifications\<close> (\<^verbatim>\<open>send\<close> raises \<^verbatim>\<open>TypeError\<close> on the keyword)
  in a channel where the bot may not write.
\<close>

abbreviation study_room :: voice_channel where
  "study_room \<equiv> \<lparr>channel_id = 1, channel_name = ''study''\<rparr>"

abbreviation lobby :: voice_channel where
  "lobby \<equiv> \<lparr>channel_id = 2, channel_name = ''lobby''\<rparr>"

abbreviation alice :: member where
  "alice \<equiv> \<lparr>member_id = 5, member_bot = False, display_name = ''alice''\<rparr>"

abbreviation fresh_cog :: cog where
  "fresh_cog \<equiv>
     \<lparr>dest_channel_id = Some 7, join_times = (\<lambda>_. None), daily_total = [], active_users = []\<rparr>"

abbreviation empty_disk :: disk where
  "empty_disk \<equiv> \<lparr>files = (\<lambda>_. None), data_dir = False, read_only = False\<rparr>"

abbreviation good_bot :: vc_bot where
  "good_bot \<equiv>
     \<lparr>target_vc_id = 1, get_channel = (\<lambda>_. True), fetch_channel = (\<lambda>_. None),
      send_suppressed = (\<lambda>_ _. None), send_plain = (\<lambda>_ _. None),
      get_user = (\<lambda>_. None)\<rparr>"

abbreviation old_library_bot :: vc_bot where
  "old_library_bot \<equiv>
     \<lparr>target_vc_id = 1, get_channel = (\<lambda>_. True), fetch_channel = (\<lambda>_. None),
      send_suppressed = (\<lambda>_ _. Some TypeError), send_plain = (\<lambda>_ _. Some Forbidden),
      get_user = (\<lambda>_. None)\<rparr>"

section \<open>Decimal text and formatting\<close>

declare str_nat.simps [simp del]

lemma str_nat_small: "n < 10 \<Longrightarrow> str_nat n = [digit_char n]"
  by (subst str_nat.simps) simp

lemma str_nat_big:
  "\<not> n < 10 \<Longrightarrow> str_nat n = str_nat (n div 10) @ [digit_char (n mod 10)]"
  by (subst str_nat.simps) simp

lemma str_nat_not_Nil: "str_nat n \<noteq> []"
  by (cases "n < 10") (simp_all add: str_nat_small str_nat_big)

lemma below_ten: "(d::nat) < 10 \<Longrightarrow> d \<in> {0, 1, 2, 3, 4, 5, 6, 7, 8, 9}"
  by auto

lemma digit_val_digit_char: "d < 10 \<Longrightarrow> digit_val (digit_char d) = Some d"
  using below_ten[of d] by (auto simp: digit_val_def digit_char_def decimal_digits_def)

lemma digit_char_not_sign: "digit_char d \<noteq> CHR ''-''" "digit_char d \<noteq> CHR ''+''"
  using below_ten[of "d mod 10"] by (auto simp: digit_char_def decimal_digits_def)

lemma nat_of_digits_append:
  "nat_of_digits acc (xs @ ys) =
     (case nat_of_digits acc xs of None \<Rightarrow> None | Some a \<Rightarrow> nat_of_digits a ys)"
  by (induction xs arbitrary: acc) (auto split: option.splits)

lemma nat_of_digits_str_nat: "nat_of_digits 0 (str_nat n) = Some n"
proof (induction n rule: str_nat.induct)
  case (1 n)
  show ?case
  proof (cases "n < 10")
    case True
    then show ?thesis by (simp add: str_nat_small digit_val_digit_char)
  next
    case False
    with 1 have ih: "nat_of_digits 0 (str_nat (n div 10)) = Some (n div 10)" by simp
    show ?thesis
      by (simp add: str_nat_big[OF False] nat_of_digits_append ih digit_val_digit_char)
  qed
qed

lemma hd_str_nat: "\<exists>d. hd (str_nat n) = digit_char d"
proof (induction n rule: str_nat.induct)
  case (1 n)
  show ?case
  proof (cases "n < 10")
    case True
    then show ?thesis by (auto simp: str_nat_small)
  next
    case False
    with 1 obtain d where "hd (str_nat (n div 10)) = digit_char d" by auto
    then show ?thesis
      using str_nat_not_Nil[of "n div 10"] by (auto simp: str_nat_big[OF False])
  qed
qed

lemma int_of_str_str_nat: "int_of_str (str_nat n) = Some (int n)"
proof -
  obtain c cs where cs: "str_nat n = c # cs"
    using str_nat_not_Nil[of n] by (cases "str_nat n") auto
  obtain d where "hd (str_nat n) = digit_char d" using hd_str_nat by blast
  with cs have c: "c = digit_char d" by simp
  have "nat_of_digits 0 (c # cs) = Some n" using nat_of_digits_str_nat[of n] cs by simp
  then show ?thesis
    unfolding int_of_str_def cs by (simp add: c digit_char_not_sign del: nat_of_digits.simps)
qed

text \<open>Reading back the decimal text of an int gives the int: \<^verbatim>\<open>int(str(i)) == i\<close>.\<close>

lemma int_of_str_str_int: "int_of_str (str_int i) = Some i"
proof (cases "i < 0")
  case True
  then show ?thesis
    by (simp add: str_int_def int_of_str_def str_nat_not_Nil nat_of_digits_str_nat)
next
  case False
  then show ?thesis by (simp add: str_int_def int_of_str_str_nat)
qed

lemma str_int_inj: "str_int i = str_int j \<Longrightarrow> i = j"
  by (metis int_of_str_str_int option.inject)

lemma py_int_nonneg: "0 \<le> x \<Longrightarrow> py_int x = \<lfloor>x\<rfloor>"
  by (simp add: py_int_def)

lemma py_int_less_iff: "py_int x < numeral k \<longleftrightarrow> x < numeral k"
proof (cases "0 \<le> x")
  case True
  then show ?thesis by (simp add: py_int_def floor_less_iff)
next
  case False
  then have neg: "x < 0" by simp
  then have "\<lceil>x\<rceil> \<le> 0" by (simp add: ceiling_le_iff)
  then have "\<lceil>x\<rceil> < numeral k" by (smt (verit) zero_less_numeral)
  moreover from neg have "x < numeral k" by (smt (verit) zero_less_numeral)
  ultimately show ?thesis using False by (simp add: py_int_def)
qed

text \<open>The summary's copy of the rule, on the truncated total, is \<^verbatim>\<open>fmt\<close>.\<close>

lemma summary_t_str_py_int: "summary_t_str (py_int sec) = fmt sec"
  by (simp add: summary_t_str_def fmt_def py_int_less_iff)

lemma mod_3600_mod_60: "(n::int) mod 3600 mod 60 = n mod 60"
  by (simp add: mod_mod_cancel)

text \<open>
  C8. For a duration \<open>sec \<ge> 0\<close>, \<^verbatim>\<open>fmt\<close> renders the whole seconds \<open>\<lfloor>sec\<rfloor>\<close>: below
  60 as seconds only; from 60 up to but not including 3600 as minutes and seconds; from
  3600 on as hours, minutes and seconds. Every unit of the chosen form is rendered, a
  zero included (\<open>str_int 0\<close> is the digit 0). The rule written out in the rollover
  summary, applied to the truncated total, gives the same text as \<^verbatim>\<open>fmt\<close>.
\<close>

theorem fmt_rule:
  assumes "0 \<le> sec"
  shows "(sec < 60 \<longrightarrow> fmt sec = str_int \<lfloor>sec\<rfloor> @ unit_sec)
    \<and> (60 \<le> sec \<and> sec < 3600 \<longrightarrow>
         fmt sec = str_int (\<lfloor>sec\<rfloor> div 60) @ unit_min @ str_int (\<lfloor>sec\<rfloor> mod 60) @ unit_sec)
    \<and> (3600 \<le> sec \<longrightarrow>
         fmt sec = str_int (\<lfloor>sec\<rfloor> div 3600) @ unit_hour
           @ str_int (\<lfloor>sec\<rfloor> mod 3600 div 60) @ unit_min
           @ str_int (\<lfloor>sec\<rfloor> mod 60) @ unit_sec)
    \<and> summary_t_str (py_int sec) = fmt sec
    \<and> str_int 0 = ''0''"
proof -
  have "py_int sec = \<lfloor>sec\<rfloor>" using assms by (rule py_int_nonneg)
  then have "sec < 60 \<longrightarrow> fmt sec = str_int \<lfloor>sec\<rfloor> @ unit_sec"
    and "60 \<le> sec \<and> sec < 3600 \<longrightarrow>
         fmt sec = str_int (\<lfloor>sec\<rfloor> div 60) @ unit_min @ str_int (\<lfloor>sec\<rfloor> mod 60) @ unit_sec"
    and "3600 \<le> sec \<longrightarrow>
         fmt sec = str_int (\<lfloor>sec\<rfloor> div 3600) @ unit_hour
           @ str_int (\<lfloor>sec\<rfloor> mod 3600 div 60) @ unit_min
           @ str_int (\<lfloor>sec\<rfloor> mod 60) @ unit_sec"
    by (simp_all add: fmt_def mod_3600_mod_60 Let_def)
  moreover have "str_int 0 = ''0''"
    by (simp add: str_int_def str_nat_small digit_char_def decimal_digits_def)
  ultimately show ?thesis using summary_t_str_py_int by blast
qed

theorem fmt_rule_witness:
  "(0::real) \<le> 45 \<and> (45::real) < 60 \<and> fmt 45 = ''45'' @ unit_sec
   \<and> (60::real) \<le> 125 \<and> (125::real) < 3600 \<and> fmt 125 = ''2'' @ unit_min @ ''5'' @ unit_sec
   \<and> (3600::real) \<le> 3725
   \<and> fmt 3725 = ''1'' @ unit_hour @ ''2'' @ unit_min @ ''5'' @ unit_sec
   \<and> fmt 3600 = ''1'' @ unit_hour @ ''0'' @ unit_min @ ''0'' @ unit_sec
   \<and> summary_t_str 3725 = fmt 3725"
  using fmt_rule[of 45] fmt_rule[of 125] fmt_rule[of 3725] fmt_rule[of 3600]
  by (simp add: str_int_def str_nat.simps digit_char_def decimal_digits_def py_int_def)

section \<open>The totals document\<close>

lemma update_fresh: "k \<notin> fst ` set acc \<Longrightarrow> AList.update k v acc = acc @ [(k, v)]"
  by (induction acc) auto

lemma dict_of_items_gen:
  "distinct (map fst (acc @ kvs)) \<Longrightarrow>
   foldl (\<lambda>acc (k, v). dict_set acc k v) acc kvs = acc @ kvs"
proof (induction kvs arbitrary: acc)
  case Nil
  then show ?case by simp
next
  case (Cons kv kvs)
  obtain k v where kv: "kv = (k, v)" by (cases kv)
  from Cons.prems kv have fresh: "k \<notin> fst ` set acc" by auto
  from Cons.prems kv have "distinct (map fst ((acc @ [(k, v)]) @ kvs))" by auto
  from Cons.IH[OF this] show ?case
    by (simp add: kv dict_set_def update_fresh[OF fresh])
qed

lemma dict_of_items_distinct: "distinct (map fst kvs) \<Longrightarrow> dict_of_items kvs = kvs"
  using dict_of_items_gen[of "[]" kvs] by (simp add: dict_of_items_def)

lemma load_items_dumped:
  "distinct (map fst (acc @ t)) \<Longrightarrow>
   load_items (map (\<lambda>(k, v). (str_int k, JFloat v)) t) acc = Inr (acc @ t)"
proof (induction t arbitrary: acc)
  case Nil
  then show ?case by simp
next
  case (Cons kv t)
  obtain k v where kv: "kv = (k, v)" by (cases kv)
  from Cons.prems kv have fresh: "k \<notin> fst ` set acc" by auto
  from Cons.prems kv have "distinct (map fst ((acc @ [(k, v)]) @ t))" by auto
  from Cons.IH[OF this] show ?case
    by (simp add: kv int_of_str_str_int dict_set_def update_fresh[OF fresh])
qed

lemma distinct_dumped_keys:
  assumes "distinct (map fst t)"
  shows "distinct (map fst (map (\<lambda>(k, v). (str_int k, JFloat v)) t))"
proof -
  have "map fst (map (\<lambda>(k, v). (str_int k, JFloat v)) t) = map str_int (map fst t)"
    by (induction t) auto
  moreover have "inj_on str_int (set (map fst t))"
    by (rule inj_onI) (rule str_int_inj)
  ultimately show ?thesis using assms by (simp only: distinct_map)
qed

lemma save_daily_totals_files:
  "\<not> read_only d \<Longrightarrow>
   files (fst (save_daily_totals t d)) DAILY_TOTALS_PATH = Some (Doc (totals_doc t))"
  by (simp add: save_daily_totals_def save_totals_ops_def split: prod.splits option.splits)

text \<open>
  C9. For every totals mapping \<open>t\<close> (a dict: its keys are distinct), the empty one
  included, on a disk that accepts the write: \<^verbatim>\<open>_save_daily_totals\<close> followed by
  \<^verbatim>\<open>_load_daily_totals\<close> returns \<open>t\<close>. The durations need not even be non-negative.
\<close>

theorem totals_round_trip:
  assumes "distinct (map fst t)" and "\<not> read_only d"
  shows "fst (load_daily_totals (fst (save_daily_totals t d))) = t"
proof -
  let ?kvs = "map (\<lambda>(k, v). (str_int k, JFloat v)) t"
  have "dict_of_items ?kvs = ?kvs"
    using assms(1) by (rule dict_of_items_distinct[OF distinct_dumped_keys])
  moreover have "load_items ?kvs [] = Inr t"
    using load_items_dumped[of "[]" t] assms(1) by simp
  ultimately show ?thesis
    by (simp add: load_daily_totals_def save_daily_totals_files[OF assms(2)] totals_doc_def)
qed

theorem totals_round_trip_witness:
  "distinct (map fst [(1::int, 90::real), (2, 61 / 2)])
   \<and> \<not> read_only \<lparr>files = (\<lambda>_. None), data_dir = False, read_only = False\<rparr>
   \<and> fst (load_daily_totals (fst (save_daily_totals [(1, 90), (2, 61 / 2)]
            \<lparr>files = (\<lambda>_. None), data_dir = False, read_only = False\<rparr>)))
       = [(1, 90), (2, 61 / 2)]
   \<and> fst (load_daily_totals (fst (save_daily_totals []
            \<lparr>files = (\<lambda>_. None), data_dir = False, read_only = False\<rparr>))) = []"
  using totals_round_trip[of "[(1, 90), (2, 61 / 2)]"
          "\<lparr>files = (\<lambda>_. None), data_dir = False, read_only = False\<rparr>"]
        totals_round_trip[of "[]"
          "\<lparr>files = (\<lambda>_. None), data_dir = False, read_only = False\<rparr>"]
  by simp

section \<open>Notification\<close>

text \<open>With no destination the message is dropped: one warning, nothing sent, nothing
  raised.\<close>

lemma notify_no_dest:
  "dest_channel_id c = None \<or> dest_channel_id c = Some 0 \<Longrightarrow>
   notify b c message = (None, [Log Warn_no_dest])"
  by (auto simp: notify_def)

lemma warn_no_dest_level: "level_of Warn_no_dest = WARNING"
  by simp

text \<open>An exception leaves \<^verbatim>\<open>send_to_channel\<close> only from the fallback \<^verbatim>\<open>send\<close>.\<close>

lemma send_to_channel_caught:
  assumes "send_suppressed b ch content \<noteq> Some TypeError \<or> send_plain b ch content = None
           \<or> (\<not> get_channel b ch \<and> fetch_channel b ch \<noteq> None)"
  shows "fst (send_to_channel b ch content) = None"
  using assms by (auto simp: send_to_channel_def split: option.splits)

lemma send_to_channel_raises_iff:
  "fst (send_to_channel b ch content) = Some e \<longleftrightarrow>
     (get_channel b ch \<or> fetch_channel b ch = None)
     \<and> send_suppressed b ch content = Some TypeError
     \<and> send_plain b ch content = Some e"
  by (auto simp: send_to_channel_def split: option.splits)

text \<open>
  C4. With no destination \<^verbatim>\<open>notify\<close> logs a warning and returns
  (\<open>notify_no_dest\<close>), and every failure of the channel lookup or of the first
  \<^verbatim>\<open>send\<close> is caught (\<open>send_to_channel_raises_iff\<close>). The plain \<^verbatim>\<open>send\<close> of the
  fallback is not guarded: where the library rejects \<^verbatim>\<open>suppress_notifications\<close>
  and the bot may not write to the channel, \<^verbatim>\<open>Forbidden\<close> leaves \<^verbatim>\<open>notify\<close>, and
  nothing is logged.
\<close>

theorem notify_fallback_failure_propagates:
  "notify old_library_bot fresh_cog ''hello'' = (Some Forbidden, [])"
  by (simp add: notify_def send_to_channel_def)

section \<open>Saving\<close>

text \<open>At every point of \<^verbatim>\<open>save_persisted_dest_channel_id\<close> the configuration file
  holds the document it held before or the new one.\<close>

lemma save_dest_atomic:
  "files (fst (run_ops (take k (save_dest_ops ch_id)) d)) CONFIG_PATH = files d CONFIG_PATH
   \<or> files (fst (run_ops (take k (save_dest_ops ch_id)) d)) CONFIG_PATH
       = Some (Doc (JObject [(''dest_channel_id'', case ch_id of None \<Rightarrow> JNull | Some i \<Rightarrow> JInt i)]))"
proof -
  consider "k = 0" | "k = 1" | "k = 2" | "k = 3" | "k \<ge> 4" by linarith
  then show ?thesis
  proof cases
    case 1 then show ?thesis by (simp add: save_dest_ops_def)
  next
    case 2 then show ?thesis by (simp add: save_dest_ops_def)
  next
    case 3 then show ?thesis by (simp add: save_dest_ops_def numeral_2_eq_2)
  next
    case 4 then show ?thesis by (simp add: save_dest_ops_def numeral_3_eq_3)
  next
    case 5 then show ?thesis by (simp add: save_dest_ops_def)
  qed
qed

text \<open>
  C2. The configuration is saved through a temporary file and a rename
  (\<open>save_dest_atomic\<close>). \<^verbatim>\<open>_save_daily_totals\<close> opens the totals file itself for
  writing: with the totals of member 1 at 90 seconds on disk, a save of 120 seconds that
  stops after \<^verbatim>\<open>open\<close> leaves an empty file, neither document, and the next
  \<^verbatim>\<open>_load_daily_totals\<close> returns the empty dict. No step of this save is a rename.
\<close>

theorem save_daily_totals_truncates_in_place:
  "files (fst (run_ops (take 2 (save_totals_ops [(1, 120)]))
       \<lparr>files = [DAILY_TOTALS_PATH \<mapsto> Doc (totals_doc [(1, 90)])],
        data_dir = True, read_only = False\<rparr>)) DAILY_TOTALS_PATH = Some Blank
   \<and> fst (load_daily_totals (fst (run_ops (take 2 (save_totals_ops [(1, 120)]))
       \<lparr>files = [DAILY_TOTALS_PATH \<mapsto> Doc (totals_doc [(1, 90)])],
        data_dir = True, read_only = False\<rparr>))) = []
   \<and> fst (load_daily_totals
       \<lparr>files = [DAILY_TOTALS_PATH \<mapsto> Doc (totals_doc [(1, 90)])],
        data_dir = True, read_only = False\<rparr>) = [(1, 90)]
   \<and> save_totals_ops [(1, 120)] =
       [Mkdir_data, Open_w DAILY_TOTALS_PATH, Json_dump DAILY_TOTALS_PATH (totals_doc [(1, 120)])]"
  by (simp add: save_totals_ops_def load_daily_totals_def numeral_2_eq_2 totals_doc_def
        dict_of_items_def dict_set_def int_of_str_def str_int_def str_nat_small digit_char_def decimal_digits_def
        digit_val_def decimal_digits_def)

section \<open>Voice state updates\<close>

lemma map_of_dict_set: "map_of (dict_set al k v) k = Some v"
  by (simp add: dict_set_def update_conv')

lemma dict_get_dict_set: "dict_get (dict_set al k v) k dflt = v"
  by (simp add: dict_get_def map_of_dict_set)

lemma on_enter:
  assumes "\<not> member_bot m" and "channel_id ch = target_vc_id b"
  shows "on_voice_state_update b now m None (Some ch) c d =
    ((c\<lparr>join_times := (join_times c)(member_id m \<mapsto> now),
         active_users := set_add (member_id m) (active_users c)\<rparr>, d),
     notify b (c\<lparr>join_times := (join_times c)(member_id m \<mapsto> now),
                 active_users := set_add (member_id m) (active_users c)\<rparr>)
       (join_message (display_name m) (channel_name ch)))"
  using assms by (simp add: on_voice_state_update_def Let_def split: prod.splits)

lemma on_leave:
  assumes "\<not> member_bot m" and "channel_id ch = target_vc_id b"
    and "join_times c (member_id m) = Some t0" and "t0 \<noteq> 0"
  shows "on_voice_state_update b now m (Some ch) None c d =
    (let total' = dict_get (daily_total c) (member_id m) 0 + (now - t0);
         c2 = c\<lparr>join_times := (join_times c)(member_id m := None),
                daily_total := dict_set (daily_total c) (member_id m) total'\<rparr>;
         saved = save_daily_totals (daily_total c2) d;
         sent = notify b c2
                  (leave_message (display_name m) (channel_name ch) (fmt (now - t0)) (fmt total'))
     in ((c2, fst saved), fst sent, snd saved @ snd sent))"
  using assms
  by (simp add: on_voice_state_update_def Let_def map_of_dict_set split: prod.splits)

lemma on_other:
  assumes "\<not> (before = None \<and> map_option channel_id after = Some (target_vc_id b))"
    and "\<not> (map_option channel_id before = Some (target_vc_id b) \<and> after = None)"
  shows "on_voice_state_update b now m before after c d = ((c, d), None, [])"
  using assms
  by (auto simp: on_voice_state_update_def Let_def split: option.splits prod.splits)

lemma on_leave_no_session:
  assumes "join_times c (member_id m) = None" and "after = None"
  shows "on_voice_state_update b now m before after c d = ((c, d), None, [])"
  using assms
  by (auto simp: on_voice_state_update_def Let_def split: option.splits prod.splits)

lemma set_add_member: "x \<in> set (set_add x xs)"
  by (simp add: set_add_def)

lemma notify_dest_only:
  "notify b (c\<lparr>join_times := jt\<rparr>) message = notify b c message"
  "notify b (c\<lparr>daily_total := t\<rparr>) message = notify b c message"
  "notify b (c\<lparr>active_users := a\<rparr>) message = notify b c message"
  by (simp_all add: notify_def)

text \<open>
  C1, as the code has it. For a member that is not a bot: the event is an enter when the
  member was in no channel and is now in the target channel; the start instant is
  recorded, the member joins the active set and the join message goes to \<^verbatim>\<open>notify\<close>.
  It is a leave when the member was in the target channel and is now in no channel; an
  open session is closed, its duration is added to the member's total, the totals are
  saved and the leave message goes to \<^verbatim>\<open>notify\<close>. Every other event, a move between
  the target channel and another voice channel included, changes nothing and emits
  nothing.
\<close>

theorem voice_state_transitions:
  assumes "\<not> member_bot m"
  shows
    "(before = None \<and> after = Some ch \<and> channel_id ch = target_vc_id b \<longrightarrow>
        (let r = on_voice_state_update b now m before after c d; c' = fst (fst r)
         in join_times c' (member_id m) = Some now
            \<and> member_id m \<in> set (active_users c')
            \<and> snd r = notify b c (join_message (display_name m) (channel_name ch))))
     \<and> (before = Some ch \<and> channel_id ch = target_vc_id b \<and> after = None
          \<and> join_times c (member_id m) = Some t0 \<and> t0 \<noteq> 0 \<longrightarrow>
        (let r = on_voice_state_update b now m before after c d; c' = fst (fst r);
             total' = dict_get (daily_total c) (member_id m) 0 + (now - t0);
             sent = notify b c
                      (leave_message (display_name m) (channel_name ch) (fmt (now - t0))
                         (fmt total'))
         in join_times c' (member_id m) = None
            \<and> daily_total c' = dict_set (daily_total c) (member_id m) total'
            \<and> snd r = (fst sent, snd (save_daily_totals (daily_total c') d) @ snd sent)))
     \<and> (\<not> (before = None \<and> map_option channel_id after = Some (target_vc_id b))
          \<and> \<not> (map_option channel_id before = Some (target_vc_id b) \<and> after = None) \<longrightarrow>
        on_voice_state_update b now m before after c d = ((c, d), None, []))"
proof (intro conjI impI)
  assume "before = None \<and> after = Some ch \<and> channel_id ch = target_vc_id b"
  then show "let r = on_voice_state_update b now m before after c d; c' = fst (fst r)
         in join_times c' (member_id m) = Some now
            \<and> member_id m \<in> set (active_users c')
            \<and> snd r = notify b c (join_message (display_name m) (channel_name ch))"
    using assms by (simp add: on_enter Let_def set_add_member notify_dest_only)
next
  assume "before = Some ch \<and> channel_id ch = target_vc_id b \<and> after = None
          \<and> join_times c (member_id m) = Some t0 \<and> t0 \<noteq> 0"
  then show "let r = on_voice_state_update b now m before after c d; c' = fst (fst r);
             total' = dict_get (daily_total c) (member_id m) 0 + (now - t0);
             sent = notify b c
                      (leave_message (display_name m) (channel_name ch) (fmt (now - t0))
                         (fmt total'))
         in join_times c' (member_id m) = None
            \<and> daily_total c' = dict_set (daily_total c) (member_id m) total'
            \<and> snd r = (fst sent, snd (save_daily_totals (daily_total c') d) @ snd sent)"
    using assms by (simp add: on_leave Let_def notify_dest_only)
next
  assume "\<not> (before = None \<and> map_option channel_id after = Some (target_vc_id b))
          \<and> \<not> (map_option channel_id before = Some (target_vc_id b) \<and> after = None)"
  then show "on_voice_state_update b now m before after c d = ((c, d), None, [])"
    by (simp add: on_other)
qed

theorem voice_state_transitions_witness:
  "\<not> member_bot alice \<and> channel_id study_room = target_vc_id good_bot
   \<and> join_times (fst (fst (on_voice_state_update good_bot 100 alice None (Some study_room)
         fresh_cog empty_disk))) 5 = Some 100
   \<and> snd (on_voice_state_update good_bot 100 alice None (Some study_room) fresh_cog empty_disk)
       = (None, [Sent 7 (join_message ''alice'' ''study'') True])
   \<and> join_times (fst (fst (on_voice_state_update good_bot 190 alice (Some study_room) None
         (fresh_cog\<lparr>join_times := [5 \<mapsto> 100]\<rparr>) empty_disk))) 5 = None
   \<and> daily_total (fst (fst (on_voice_state_update good_bot 190 alice (Some study_room) None
         (fresh_cog\<lparr>join_times := [5 \<mapsto> 100]\<rparr>) empty_disk))) = [(5, 90)]
   \<and> snd (on_voice_state_update good_bot 190 alice (Some study_room) None
         (fresh_cog\<lparr>join_times := [5 \<mapsto> 100]\<rparr>) empty_disk)
       = (None, [Log Info_totals_saved,
                 Sent 7 (leave_message ''alice'' ''study'' (fmt 90) (fmt 90)) True])
   \<and> on_voice_state_update good_bot 100 alice (Some lobby) (Some study_room) fresh_cog empty_disk
       = ((fresh_cog, empty_disk), None, [])"
  using
    voice_state_transitions[where m = alice and before = None and after = "Some study_room"
      and ch = study_room and b = good_bot and now = 100 and c = fresh_cog and d = empty_disk]
    voice_state_transitions[where m = alice and before = "Some study_room" and after = None
      and ch = study_room and b = good_bot and now = 190
      and c = "fresh_cog\<lparr>join_times := [5 \<mapsto> 100]\<rparr>" and d = empty_disk and ?t0.0 = 100]
    voice_state_transitions[where m = alice and before = "Some lobby"
      and after = "Some study_room" and b = good_bot and now = 100 and c = fresh_cog
      and d = empty_disk]
  by (simp add: Let_def notify_def send_to_channel_def save_daily_totals_def
        save_totals_ops_def dict_get_def dict_set_def)

text \<open>
  C1 as the specification words it fails: alice moves from the lobby into the
  target channel, an enter in the specification's sense, and nothing is recorded or
  sent; she moves from the target channel to the lobby with a session open, a leave in
  the specification's sense, and the session stays open.
\<close>

theorem channel_moves_are_ignored:
  "spec_enter (target_vc_id good_bot) (Some lobby) (Some study_room)
   \<and> \<not> member_bot alice
   \<and> on_voice_state_update good_bot 100 alice (Some lobby) (Some study_room) fresh_cog empty_disk
       = ((fresh_cog, empty_disk), None, [])
   \<and> join_times (fst (fst (on_voice_state_update good_bot 100 alice (Some lobby)
         (Some study_room) fresh_cog empty_disk))) (member_id alice) \<noteq> Some 100
   \<and> spec_leave (target_vc_id good_bot) (Some study_room) (Some lobby)
   \<and> join_times (fst (fst (on_voice_state_update good_bot 190 alice (Some study_room)
         (Some lobby) (fresh_cog\<lparr>join_times := [5 \<mapsto> 100]\<rparr>) empty_disk))) (member_id alice)
       = Some 100
   \<and> snd (on_voice_state_update good_bot 190 alice (Some study_room)
         (Some lobby) (fresh_cog\<lparr>join_times := [5 \<mapsto> 100]\<rparr>) empty_disk) = (None, [])"
  by (simp add: spec_enter_def spec_leave_def on_voice_state_update_def)

text \<open>
  C3, as the code has it. A leave that closes an open session (a start instant \<open>t0\<close>
  that \<^verbatim>\<open>if join_time:\<close> accepts, so not \<open>0.0\<close>) adds \<open>now - t0\<close> to the member's
  total, without a clamp: the amount is the specification's clamped duration exactly
  when the clock at the leave reads no earlier than at the enter.
\<close>

theorem leave_duration:
  assumes "\<not> member_bot m" and "channel_id ch = target_vc_id b"
    and "join_times c (member_id m) = Some t0" and "t0 \<noteq> 0"
  shows
    "dict_get (daily_total (fst (fst (on_voice_state_update b now m (Some ch) None c d))))
        (member_id m) 0
       = dict_get (daily_total c) (member_id m) 0 + (now - t0)
     \<and> (now - t0 = spec_duration now t0 \<longleftrightarrow> t0 \<le> now)"
  using assms by (auto simp: on_leave Let_def dict_get_dict_set spec_duration_def)

theorem leave_duration_witness:
  "\<not> member_bot alice \<and> channel_id study_room = target_vc_id good_bot
   \<and> dict_get (daily_total (fst (fst (on_voice_state_update good_bot 190 alice
         (Some study_room) None (fresh_cog\<lparr>join_times := [5 \<mapsto> 100]\<rparr>) empty_disk)))) 5 0 = 90
   \<and> spec_duration 190 100 = 90"
  using leave_duration[where m = alice and ch = study_room and b = good_bot and now = 190
      and c = "fresh_cog\<lparr>join_times := [5 \<mapsto> 100]\<rparr>" and d = empty_disk and ?t0.0 = 100]
  by (simp add: dict_get_def spec_duration_def)

text \<open>
  C3 as the specification words it fails: with the start at 100 and the clock at 50 on
  the leave, the total of alice goes from 0 to -50, not to 0.
\<close>

theorem backward_clock_gives_negative_duration:
  "dict_get (daily_total (fst (fst (on_voice_state_update good_bot 50 alice
       (Some study_room) None (fresh_cog\<lparr>join_times := [5 \<mapsto> 100]\<rparr>) empty_disk)))) 5 0 = - 50
   \<and> dict_get (daily_total (fst (fst (on_voice_state_update good_bot 50 alice
       (Some study_room) None (fresh_cog\<lparr>join_times := [5 \<mapsto> 100]\<rparr>) empty_disk)))) 5 0
       \<noteq> dict_get (daily_total (fresh_cog\<lparr>join_times := [5 \<mapsto> 100]\<rparr>)) 5 0
           + spec_duration 50 100"
  by (simp add: on_voice_state_update_def Let_def dict_get_def dict_set_def spec_duration_def
        split: prod.splits)

text \<open>
  C6. An event that leaves the target channel (for no channel or for another one), for a
  member with no open session, changes neither the cog (start instants, totals, active
  set) nor the disk, sends and logs nothing and raises nothing.
\<close>

theorem leave_without_session_dropped:
  assumes "map_option channel_id before = Some (target_vc_id b)"
    and "map_option channel_id after \<noteq> Some (target_vc_id b)"
    and "join_times c (member_id m) = None"
  shows "on_voice_state_update b now m before after c d = ((c, d), None, [])"
  using assms by (auto simp: on_voice_state_update_def Let_def split: option.splits)

theorem leave_without_session_dropped_witness:
  "map_option channel_id (Some study_room) = Some (target_vc_id good_bot)
   \<and> map_option channel_id None \<noteq> Some (target_vc_id good_bot)
   \<and> join_times fresh_cog (member_id alice) = None
   \<and> on_voice_state_update good_bot 190 alice (Some study_room) None fresh_cog empty_disk
       = ((fresh_cog, empty_disk), None, [])"
  using leave_without_session_dropped[where before = "Some study_room" and after = None
      and b = good_bot and c = fresh_cog and m = alice and now = 190 and d = empty_disk]
  by simp

text \<open>
  C7. With a session of \<open>m\<close> open since \<open>t1\<close>, a second enter at \<open>t2\<close> replaces the
  start instant by \<open>t2\<close> and leaves the totals alone; what it raises and emits is what
  the same enter raises and emits with no session open, so being a duplicate is no error.
  Processing goes on: the next leave, at \<open>t3\<close>, adds \<open>t3 - t2\<close> to the total and closes
  the session.
\<close>

theorem duplicate_enter_restarts:
  assumes "\<not> member_bot m" and "channel_id ch = target_vc_id b"
    and "join_times c (member_id m) = Some t1" and "t2 \<noteq> 0"
  shows
    "(let r2 = on_voice_state_update b t2 m None (Some ch) c d;
          c2 = fst (fst r2); d2 = snd (fst r2);
          c3 = fst (fst (on_voice_state_update b t3 m (Some ch) None c2 d2))
      in join_times c2 (member_id m) = Some t2
         \<and> daily_total c2 = daily_total c
         \<and> snd r2 = snd (on_voice_state_update b t2 m None (Some ch)
                           (c\<lparr>join_times := (join_times c)(member_id m := None)\<rparr>) d)
         \<and> dict_get (daily_total c3) (member_id m) 0
             = dict_get (daily_total c) (member_id m) 0 + (t3 - t2)
         \<and> join_times c3 (member_id m) = None)"
  using assms by (simp add: on_enter on_leave Let_def dict_get_dict_set notify_dest_only)

theorem duplicate_enter_restarts_witness:
  "\<not> member_bot alice \<and> channel_id study_room = target_vc_id good_bot
   \<and> join_times (fresh_cog\<lparr>join_times := [5 \<mapsto> 100]\<rparr>) (member_id alice) = Some 100
   \<and> (160::real) \<noteq> 0
   \<and> join_times (fst (fst (on_voice_state_update good_bot 160 alice None (Some study_room)
         (fresh_cog\<lparr>join_times := [5 \<mapsto> 100]\<rparr>) empty_disk))) 5 = Some 160
   \<and> dict_get (daily_total (fst (fst (on_voice_state_update good_bot 190 alice
         (Some study_room) None
         (fst (fst (on_voice_state_update good_bot 160 alice None (Some study_room)
            (fresh_cog\<lparr>join_times := [5 \<mapsto> 100]\<rparr>) empty_disk)))
         (snd (fst (on_voice_state_update good_bot 160 alice None (Some study_room)
            (fresh_cog\<lparr>join_times := [5 \<mapsto> 100]\<rparr>) empty_disk))))))) 5 0 = 30"
  using duplicate_enter_restarts[where m = alice and ch = study_room and b = good_bot
      and c = "fresh_cog\<lparr>join_times := [5 \<mapsto> 100]\<rparr>" and d = empty_disk
      and ?t1.0 = 100 and ?t2.0 = 160 and ?t3.0 = 190]
  by (simp add: Let_def dict_get_def)

section \<open>The rollover\<close>

lemma join_lines_contains:
  "l \<in> set ls \<Longrightarrow> \<exists>pre post. join_lines ls = pre @ l @ post"
proof (induction ls rule: join_lines.induct)
  case 1
  then show ?case by simp
next
  case (2 x)
  then have "join_lines [x] = [] @ l @ []" by simp
  then show ?case by blast
next
  case (3 x y zs)
  show ?case
  proof (cases "l = x")
    case True
    then have "join_lines (x # y # zs) = [] @ l @ ([CHR 0x0A] @ join_lines (y # zs))" by simp
    then show ?thesis by blast
  next
    case False
    with 3 obtain pre post where "join_lines (y # zs) = pre @ l @ post" by auto
    then have "join_lines (x # y # zs) = (x @ [CHR 0x0A] @ pre) @ l @ post" by simp
    then show ?thesis by blast
  qed
qed

lemma daily_summary_idle:
  "\<not> (jst_hour utc = 23 \<and> jst_minute utc = 59 \<and> active_users c \<noteq> []) \<Longrightarrow>
   daily_summary b utc c d = ((c, d), None, [])"
  by (auto simp: daily_summary_def)

lemma daily_summary_fires:
  assumes "jst_hour utc = 23" and "jst_minute utc = 59" and "active_users c \<noteq> []"
    and "fst (notify b c (summary_message b c)) = None"
  shows "daily_summary b utc c d =
     ((c\<lparr>daily_total := [], active_users := []\<rparr>, fst (save_daily_totals [] d)), None,
      snd (notify b c (summary_message b c)) @ snd (save_daily_totals [] d))"
  using assms by (auto simp: daily_summary_def Let_def split: prod.splits option.splits)

lemma daily_summary_aborts:
  assumes "jst_hour utc = 23" and "jst_minute utc = 59" and "active_users c \<noteq> []"
    and "fst (notify b c (summary_message b c)) = Some e"
  shows "daily_summary b utc c d = ((c, d), Some e, snd (notify b c (summary_message b c)))"
  using assms by (auto simp: daily_summary_def Let_def split: prod.splits option.splits)

lemma summary_line_eq:
  "summary_line b c uid =
     txt_bullet @ (case get_user b uid of Some n \<Rightarrow> n | None \<Rightarrow> ''<@'' @ str_int uid @ ''>'')
       @ txt_colon @ summary_t_str (py_int (dict_get (daily_total c) uid 0))"
  by (simp add: summary_line_def Let_def)

lemma summary_t_str_no_total:
  "map_of (daily_total c) uid = None \<Longrightarrow>
   summary_t_str (py_int (dict_get (daily_total c) uid 0)) = ''0'' @ unit_sec"
  by (simp add: dict_get_def py_int_def summary_t_str_def str_int_def str_nat_small
        digit_char_def decimal_digits_def)

text \<open>
  C10. The message \<^verbatim>\<open>daily_summary\<close> hands to \<^verbatim>\<open>notify\<close> at 23:59 JST is the header,
  an empty line, one line for each member of the active set, an empty line and the
  footer. The line of a member is the bullet, the name (the display name, or the mention
  of the id for a user not in the cache), the colon and the member's total, truncated to
  whole seconds and formatted; so every active member is listed, with or without an entry
  in the totals. A member with no entry gets the total 0, rendered as the digit 0 and the
  seconds suffix. Such a member exists because an enter adds the member to the active set
  and does not touch the totals.
\<close>

theorem summary_lists_every_active_member:
  assumes "uid \<in> set (active_users c)"
  shows
    "summary_message b c =
       join_lines
         ([txt_header, []]
          @ map (\<lambda>u. txt_bullet
                      @ (case get_user b u of Some n \<Rightarrow> n | None \<Rightarrow> ''<@'' @ str_int u @ ''>'')
                      @ txt_colon @ summary_t_str (py_int (dict_get (daily_total c) u 0)))
              (active_users c)
          @ [[], txt_footer])
     \<and> (\<exists>pre post. summary_message b c =
            pre @ (txt_bullet
                   @ (case get_user b uid of Some n \<Rightarrow> n | None \<Rightarrow> ''<@'' @ str_int uid @ ''>'')
                   @ txt_colon @ summary_t_str (py_int (dict_get (daily_total c) uid 0)))
                @ post)
     \<and> (map_of (daily_total c) uid = None \<longrightarrow>
          (\<exists>pre post. summary_message b c =
            pre @ (txt_bullet
                   @ (case get_user b uid of Some n \<Rightarrow> n | None \<Rightarrow> ''<@'' @ str_int uid @ ''>'')
                   @ txt_colon @ ''0'' @ unit_sec)
                @ post))
     \<and> (jst_hour utc = 23 \<and> jst_minute utc = 59 \<longrightarrow>
          (\<exists>rest. snd (snd (daily_summary b utc c d))
                    = snd (notify b c (summary_message b c)) @ rest))
     \<and> (\<not> member_bot m \<and> channel_id ch = target_vc_id b \<longrightarrow>
          member_id m \<in> set (active_users
              (fst (fst (on_voice_state_update b now m None (Some ch) c0 d))))
          \<and> daily_total (fst (fst (on_voice_state_update b now m None (Some ch) c0 d)))
              = daily_total c0)"
proof -
  let ?name = "\<lambda>u. case get_user b u of Some n \<Rightarrow> n | None \<Rightarrow> ''<@'' @ str_int u @ ''>''"
  let ?line = "\<lambda>u. txt_bullet @ ?name u @ txt_colon
                   @ summary_t_str (py_int (dict_get (daily_total c) u 0))"
  have line: "summary_line b c = ?line"
    by (rule ext) (simp add: summary_line_eq)
  have msg: "summary_message b c =
       join_lines ([txt_header, []] @ map ?line (active_users c) @ [[], txt_footer])"
    by (simp only: summary_message_def line)
  have "?line uid \<in> set ([txt_header, []] @ map ?line (active_users c) @ [[], txt_footer])"
    using assms by simp
  then have listed: "\<exists>pre post. summary_message b c = pre @ ?line uid @ post"
    unfolding msg by (rule join_lines_contains)
  have zero: "map_of (daily_total c) uid = None \<longrightarrow>
          (\<exists>pre post. summary_message b c =
             pre @ (txt_bullet @ ?name uid @ txt_colon @ ''0'' @ unit_sec) @ post)"
  proof
    assume "map_of (daily_total c) uid = None"
    then have "summary_t_str (py_int (dict_get (daily_total c) uid 0)) = ''0'' @ unit_sec"
      by (rule summary_t_str_no_total)
    with listed show "\<exists>pre post. summary_message b c =
             pre @ (txt_bullet @ ?name uid @ txt_colon @ ''0'' @ unit_sec) @ post"
      by simp
  qed
  from assms have ne: "active_users c \<noteq> []" by auto
  have sent: "jst_hour utc = 23 \<and> jst_minute utc = 59 \<longrightarrow>
          (\<exists>rest. snd (snd (daily_summary b utc c d))
                    = snd (notify b c (summary_message b c)) @ rest)"
  proof
    assume t: "jst_hour utc = 23 \<and> jst_minute utc = 59"
    show "\<exists>rest. snd (snd (daily_summary b utc c d))
                    = snd (notify b c (summary_message b c)) @ rest"
    proof (cases "fst (notify b c (summary_message b c))")
      case None
      with t ne show ?thesis by (simp add: daily_summary_fires)
    next
      case (Some e)
      with t ne show ?thesis by (simp add: daily_summary_aborts)
    qed
  qed
  have enter: "\<not> member_bot m \<and> channel_id ch = target_vc_id b \<longrightarrow>
          member_id m \<in> set (active_users
              (fst (fst (on_voice_state_update b now m None (Some ch) c0 d))))
          \<and> daily_total (fst (fst (on_voice_state_update b now m None (Some ch) c0 d)))
              = daily_total c0"
    by (simp add: on_enter set_add_member)
  from msg listed zero sent enter show ?thesis by blast
qed

theorem summary_lists_every_active_member_witness:
  "(6::int) \<in> set (active_users (fresh_cog\<lparr>daily_total := [(5, 90)], active_users := [5, 6]\<rparr>))
   \<and> (5::int) \<in> set (active_users (fresh_cog\<lparr>daily_total := [(5, 90)], active_users := [5, 6]\<rparr>))
   \<and> map_of (daily_total (fresh_cog\<lparr>daily_total := [(5, 90)], active_users := [5, 6]\<rparr>))
         (6::int) = None
   \<and> summary_message good_bot (fresh_cog\<lparr>daily_total := [(5, 90)], active_users := [5, 6]\<rparr>)
       = txt_header @ [CHR 0x0A] @ [CHR 0x0A]
         @ txt_bullet @ ''<@5>'' @ txt_colon @ ''1'' @ unit_min @ ''30'' @ unit_sec @ [CHR 0x0A]
         @ txt_bullet @ ''<@6>'' @ txt_colon @ ''0'' @ unit_sec @ [CHR 0x0A]
         @ [CHR 0x0A] @ txt_footer
   \<and> jst_hour 1762181940 = 23 \<and> jst_minute 1762181940 = 59
   \<and> (\<exists>rest. snd (snd (daily_summary good_bot 1762181940
                  (fresh_cog\<lparr>daily_total := [(5, 90)], active_users := [5, 6]\<rparr>) empty_disk))
          = snd (notify good_bot (fresh_cog\<lparr>daily_total := [(5, 90)], active_users := [5, 6]\<rparr>)
                   (summary_message good_bot
                      (fresh_cog\<lparr>daily_total := [(5, 90)], active_users := [5, 6]\<rparr>))) @ rest)
   \<and> \<not> member_bot alice \<and> channel_id study_room = target_vc_id good_bot
   \<and> member_id alice \<in> set (active_users (fst (fst (on_voice_state_update good_bot 100 alice
         None (Some study_room) fresh_cog empty_disk))))
   \<and> daily_total (fst (fst (on_voice_state_update good_bot 100 alice
         None (Some study_room) fresh_cog empty_disk))) = []"
proof -
  note th = summary_lists_every_active_member[where uid = 6
      and c = "fresh_cog\<lparr>daily_total := [(5, 90)], active_users := [5, 6]\<rparr>"
      and b = good_bot and utc = 1762181940 and d = empty_disk and m = alice
      and ch = study_room and now = 100 and ?c0.0 = fresh_cog]
  have mem: "(6::int) \<in> set (active_users
      (fresh_cog\<lparr>daily_total := [(5, 90)], active_users := [5, 6]\<rparr>))"
    by simp
  note msg = th[OF mem, THEN conjunct1]
  note sent = th[OF mem, THEN conjunct2, THEN conjunct2, THEN conjunct2, THEN conjunct1]
  note enter = th[OF mem, THEN conjunct2, THEN conjunct2, THEN conjunct2, THEN conjunct2]
  have t: "jst_hour 1762181940 = 23 \<and> jst_minute 1762181940 = 59"
    by (simp add: jst_hour_def jst_minute_def)
  have e: "\<not> member_bot alice \<and> channel_id study_room = target_vc_id good_bot"
    by simp
  have m: "summary_message good_bot (fresh_cog\<lparr>daily_total := [(5, 90)], active_users := [5, 6]\<rparr>)
       = txt_header @ [CHR 0x0A] @ [CHR 0x0A]
         @ txt_bullet @ ''<@5>'' @ txt_colon @ ''1'' @ unit_min @ ''30'' @ unit_sec @ [CHR 0x0A]
         @ txt_bullet @ ''<@6>'' @ txt_colon @ ''0'' @ unit_sec @ [CHR 0x0A]
         @ [CHR 0x0A] @ txt_footer"
    unfolding msg
    by (simp add: dict_get_def py_int_def summary_t_str_def str_int_def str_nat.simps
          digit_char_def decimal_digits_def)
  from mem m t sent[rule_format, OF t] e enter[rule_format, OF e] show ?thesis
    by simp
qed

text \<open>
  C5. A tick outside 23:59 JST, or with nobody active, does nothing
  (\<open>daily_summary_idle\<close>); a tick at 23:59 JST with somebody active whose call of
  \<^verbatim>\<open>notify\<close> returns sends the one summary message, clears the totals and the active
  set and saves the empty totals (\<open>daily_summary_fires\<close>). When \<^verbatim>\<open>notify\<close> raises,
  as it does with the unguarded fallback \<^verbatim>\<open>send\<close>, the exception leaves
  \<^verbatim>\<open>daily_summary\<close> before the two \<^verbatim>\<open>clear()\<close> calls: at 23:59 JST, with alice
  active at 90 seconds, the totals and the active set are what they were.
\<close>

theorem daily_summary_aborts_before_reset:
  "jst_hour 1762181940 = 23 \<and> jst_minute 1762181940 = 59
   \<and> daily_summary old_library_bot 1762181940
        (fresh_cog\<lparr>daily_total := [(5, 90)], active_users := [5]\<rparr>) empty_disk
       = ((fresh_cog\<lparr>daily_total := [(5, 90)], active_users := [5]\<rparr>, empty_disk),
          Some Forbidden, [])"
  by (simp add: daily_summary_def jst_hour_def jst_minute_def notify_def send_to_channel_def)

end
